theory Spec2Isabelle
  imports Main
begin

section \<open>The sentiment widget of SentimentAnalyzer.tsx\<close>

text \<open>
  The component keeps four pieces of React state (\<open>timeframe\<close>, \<open>isLoading\<close>,
  \<open>error\<close>, \<open>sentimentData\<close>), fetches a payload for one timeframe, and falls back to
  the constant \<open>mockSentimentData\<close> when the call fails or the payload is not
  recognised. The embedding follows the source function by function. JavaScript
  numbers are modelled as \<open>int\<close> (no property below depends on fractions), an optional
  or falsy field as \<open>None\<close>, and a string that JavaScript treats as falsy as \<open>[]\<close>.
\<close>

subsection \<open>Data\<close>

text \<open>The union type \<^verbatim>\<open>'24h' | '7d' | '30d'\<close> of \<open>timeframe\<close> and of the parameter \<open>period\<close>.\<close>

datatype period = P24h | P7d | P30d

fun period_str :: "period \<Rightarrow> string" where
  "period_str P24h = ''24h''"
| "period_str P7d = ''7d''"
| "period_str P30d = ''30d''"

text \<open>The union type \<^verbatim>\<open>'bullish' | 'bearish' | 'neutral'\<close>.\<close>

datatype mood = Bullish | Bearish | Neutral

text \<open>
  The type \<open>SentimentData\<close> (lines 12-20). Two fields are renamed: the source's \<open>value\<close> is
  \<open>score\<close> here and the source's \<open>sentiment\<close> is \<open>classification\<close>, because \<open>sentiment\<close> is
  also a key of the state object below.
\<close>

record SentimentData =
  period :: string
  score :: int
  classification :: mood
  tokens_launched :: int
  tokens_over_100k :: int
  tokens_over_1m :: int
  profitable_tokens_percent :: int

text \<open>The object held by \<open>sentimentData\<close> (lines 57-62): four optional records.\<close>

record sentiment_table =
  sentiment :: "SentimentData option"
  sentiment24h :: "SentimentData option"
  sentiment7d :: "SentimentData option"
  sentiment30d :: "SentimentData option"

text \<open>
  The constant \<open>mockSentimentData\<close> (lines 23-51), as a function of its key
  \<^verbatim>\<open>sentiment${period}\<close>.
\<close>

fun mockSentimentData :: "period \<Rightarrow> SentimentData" where
  "mockSentimentData P24h =
     \<lparr>period = ''24h'', score = 75, classification = Bullish, tokens_launched = 42,
      tokens_over_100k = 18, tokens_over_1m = 8, profitable_tokens_percent = 65\<rparr>"
| "mockSentimentData P7d =
     \<lparr>period = ''7d'', score = 62, classification = Bullish, tokens_launched = 124,
      tokens_over_100k = 58, tokens_over_1m = 22, profitable_tokens_percent = 52\<rparr>"
| "mockSentimentData P30d =
     \<lparr>period = ''30d'', score = 48, classification = Neutral, tokens_launched = 380,
      tokens_over_100k = 160, tokens_over_1m = 65, profitable_tokens_percent = 43\<rparr>"

text \<open>The initial value \<^verbatim>\<open>{}\<close> of \<open>sentimentData\<close> (line 62).\<close>

definition emptyTable :: sentiment_table where
  "emptyTable =
     \<lparr>sentiment = None, sentiment24h = None, sentiment7d = None, sentiment30d = None\<rparr>"

text \<open>The object literal passed to \<open>setSentimentData\<close> at lines 100-105 and 114-119.\<close>

definition mockTable :: "period \<Rightarrow> sentiment_table" where
  "mockTable p =
     \<lparr>sentiment = Some (mockSentimentData p),
      sentiment24h = Some (mockSentimentData P24h),
      sentiment7d = Some (mockSentimentData P7d),
      sentiment30d = Some (mockSentimentData P30d)\<rparr>"

text \<open>
  What \<open>supabase.functions.invoke\<close> resolves to: \<^verbatim>\<open>{ data, error }\<close>. \<open>fn_error\<close> is the
  transport error (\<open>None\<close> for \<open>null\<close>, otherwise its \<open>message\<close>, \<open>[]\<close> when the message
  is missing or empty). \<open>data\<close> is \<open>None\<close> for \<open>null\<close>; otherwise its \<open>error\<close> field
  (\<open>data_error\<close>) and its four sentiment fields (\<open>body\<close>). A payload that is not an
  object has none of these fields and is the payload with every field \<open>None\<close>. The
  client library reports every failure of the call through \<open>error\<close>; its promise is not
  rejected.
\<close>

record api_data =
  data_error :: "string option"
  body :: sentiment_table

record invoke_result =
  data :: "api_data option"
  fn_error :: "string option"

text \<open>The notifications sent through \<open>toast\<close>.\<close>

datatype toast = ToastWarning string | ToastError string

text \<open>
  The component's state: the four \<open>useState\<close> cells, and the notifications emitted so
  far.
\<close>

record widget =
  timeframe :: period
  isLoading :: bool
  error :: "string option"
  sentimentData :: sentiment_table
  toasts :: "toast list"

subsection \<open>fetchSentimentData\<close>

text \<open>JavaScript's \<^verbatim>\<open>s || d\<close> on strings: the default replaces a falsy (empty) string.\<close>

definition js_or :: "string \<Rightarrow> string \<Rightarrow> string" where
  "js_or s d = (if s = [] then d else s)"

text \<open>The test of line 95 on a payload object.\<close>

definition has_sentiment :: "sentiment_table \<Rightarrow> bool" where
  "has_sentiment t \<longleftrightarrow>
     sentiment t \<noteq> None \<or> sentiment24h t \<noteq> None \<or> sentiment7d t \<noteq> None \<or> sentiment30d t \<noteq> None"

text \<open>The test of line 87: the payload's \<open>error\<close> field when it is truthy.\<close>

definition app_error :: "api_data \<Rightarrow> string option" where
  "app_error d =
     (case data_error d of None \<Rightarrow> None | Some e \<Rightarrow> if e = [] then None else Some e)"

text \<open>
  The message of the \<open>TypeError\<close> that reading \<^verbatim>\<open>data.error\<close> raises at line 87 when
  \<open>data\<close> is \<open>null\<close>. The text depends on the engine and is never empty; this is the
  text of V8.
\<close>

definition null_data_message :: string where
  "null_data_message = ''Cannot read properties of null (reading 'error')''"

text \<open>
  The three ways the \<open>try\<close> block (lines 72-108) ends once the call has resolved:
  \<open>Live t\<close> is line 96 (\<open>setSentimentData(data)\<close>), \<open>InvalidFormat\<close> is the \<open>else\<close> branch of
  lines 97-108, and \<open>Thrown m\<close> is an \<open>Error\<close> with message \<open>m\<close> on its way to \<open>catch\<close>
  (lines 84, 89, or the \<open>TypeError\<close> of line 87).
\<close>

datatype outcome = Live sentiment_table | InvalidFormat | Thrown string

definition fetch_try :: "invoke_result \<Rightarrow> outcome" where
  "fetch_try r =
     (case fn_error r of
        Some m \<Rightarrow> Thrown (js_or m ''Failed to fetch market data'')
      | None \<Rightarrow>
          (case data r of
             None \<Rightarrow> Thrown null_data_message
           | Some d \<Rightarrow>
               (case app_error d of
                  Some e \<Rightarrow> Thrown e
                | None \<Rightarrow> if has_sentiment (body d) then Live (body d) else InvalidFormat)))"

text \<open>Whether the \<open>try\<close> block ended in one of the two places that install the mock data.\<close>

fun fallback :: "outcome \<Rightarrow> bool" where
  "fallback (Live t) = False"
| "fallback InvalidFormat = True"
| "fallback (Thrown m) = True"

text \<open>Lines 69-70: what \<open>fetchSentimentData\<close> does before it awaits the call.\<close>

definition fetch_begin :: "widget \<Rightarrow> widget" where
  "fetch_begin w = w\<lparr>isLoading := True, error := None\<rparr>"

text \<open>
  Lines 82-124: what \<open>fetchSentimentData(period)\<close> does once the call has resolved to
  \<open>r\<close>: the rest of the \<open>try\<close> block, the \<open>catch\<close> block, and \<open>finally\<close>.
\<close>

definition fetch_settle :: "period \<Rightarrow> invoke_result \<Rightarrow> widget \<Rightarrow> widget" where
  "fetch_settle p r w =
     (case fetch_try r of
        Live t \<Rightarrow> w\<lparr>sentimentData := t\<rparr>
      | InvalidFormat \<Rightarrow>
          w\<lparr>sentimentData := mockTable p,
            toasts := toasts w @
              [ToastWarning ''Using simulated market data. Connect APIs for live data.'']\<rparr>
      | Thrown m \<Rightarrow>
          w\<lparr>error := Some (js_or m ''Failed to fetch market sentiment''),
            sentimentData := mockTable p,
            toasts := toasts w @
              [ToastError (''Error loading market data: '' @ js_or m ''Unknown error'')]\<rparr>)
     \<lparr>isLoading := False\<rparr>"

text \<open>A call of \<open>fetchSentimentData(period)\<close> that nothing else interleaves with.\<close>

definition fetchSentimentData :: "period \<Rightarrow> invoke_result \<Rightarrow> widget \<Rightarrow> widget" where
  "fetchSentimentData p r w = fetch_settle p r (fetch_begin w)"

subsection \<open>Derived values\<close>

text \<open>The conditional of lines 173-175: the entry of the table for a timeframe.\<close>

fun periodEntry :: "sentiment_table \<Rightarrow> period \<Rightarrow> SentimentData option" where
  "periodEntry t P24h = sentiment24h t"
| "periodEntry t P7d = sentiment7d t"
| "periodEntry t P30d = sentiment30d t"

text \<open>Lines 172-175.\<close>

definition currentSentiment :: "widget \<Rightarrow> SentimentData option" where
  "currentSentiment w =
     (case sentiment (sentimentData w) of
        Some r \<Rightarrow> Some r
      | None \<Rightarrow> periodEntry (sentimentData w) (timeframe w))"

text \<open>Lines 128-153: a chart point is \<^verbatim>\<open>{name, sentiment}\<close>.\<close>

definition getChartData :: "sentiment_table \<Rightarrow> (string \<times> int) list" where
  "getChartData t =
     (let chartData = [];
          chartData = (case sentiment24h t of
                         Some r \<Rightarrow> chartData @ [(''24h'', score r)] | None \<Rightarrow> chartData);
          chartData = (case sentiment7d t of
                         Some r \<Rightarrow> chartData @ [(''7d'', score r)] | None \<Rightarrow> chartData);
          chartData = (case sentiment30d t of
                         Some r \<Rightarrow> chartData @ [(''30d'', score r)] | None \<Rightarrow> chartData)
      in chartData)"

subsection \<open>The component over time\<close>

text \<open>
  The calls of \<open>invoke\<close> that have not resolved yet are kept as the list of their
  \<open>period\<close> arguments, oldest first: the continuation of a call depends on nothing else,
  since it only uses \<open>period\<close> and the state setters.
\<close>

record runtime =
  ui :: widget
  pending :: "period list"

text \<open>
  \<open>SetTimeframe p\<close> is a click on a timeframe button, \<open>Refresh\<close> a click on the refresh
  or the retry button, and \<open>Resolve i r\<close> the arrival of the result \<open>r\<close> for the \<open>i\<close>-th
  pending call.
\<close>

datatype event = SetTimeframe period | Refresh | Resolve nat invoke_result

text \<open>The state after mounting: the initial \<open>useState\<close> values and the first run of the effect.\<close>

definition mounted :: runtime where
  "mounted =
     \<lparr>ui = fetch_begin
        \<lparr>timeframe = P24h, isLoading = True, error = None,
         sentimentData = emptyTable, toasts = []\<rparr>,
      pending = [P24h]\<rparr>"

text \<open>
  \<open>setTimeframe\<close> with the current value changes nothing, so the effect of lines 64-66
  does not run; with another value the effect calls \<open>fetchSentimentData\<close>.
\<close>

fun step :: "runtime \<Rightarrow> event \<Rightarrow> runtime" where
  "step s (SetTimeframe p) =
     (if p = timeframe (ui s) then s
      else \<lparr>ui = fetch_begin ((ui s)\<lparr>timeframe := p\<rparr>), pending = pending s @ [p]\<rparr>)"
| "step s Refresh =
     \<lparr>ui = fetch_begin (ui s), pending = pending s @ [timeframe (ui s)]\<rparr>"
| "step s (Resolve i r) =
     (if i < length (pending s)
      then \<lparr>ui = fetch_settle (pending s ! i) r (ui s),
            pending = take i (pending s) @ drop (Suc i) (pending s)\<rparr>
      else s)"

definition run :: "runtime \<Rightarrow> event list \<Rightarrow> runtime" where
  "run s evs = foldl step s evs"

subsection \<open>Shapes of call results\<close>

text \<open>
  A call that succeeded with a payload carrying no \<open>error\<close> field, a call that failed in
  transport, a call that succeeded with a payload carrying an \<open>error\<close> field, and a
  call that succeeded with the payload \<open>null\<close>.
\<close>

definition ok_result :: "sentiment_table \<Rightarrow> invoke_result" where
  "ok_result t = \<lparr>data = Some \<lparr>data_error = None, body = t\<rparr>, fn_error = None\<rparr>"

definition transport_failure :: "string \<Rightarrow> invoke_result" where
  "transport_failure m = \<lparr>data = None, fn_error = Some m\<rparr>"

definition app_failure :: "string \<Rightarrow> sentiment_table \<Rightarrow> invoke_result" where
  "app_failure e t = \<lparr>data = Some \<lparr>data_error = Some e, body = t\<rparr>, fn_error = None\<rparr>"

definition null_result :: invoke_result where
  "null_result = \<lparr>data = None, fn_error = None\<rparr>"

subsection \<open>The chart series as the specification words it\<close>

text \<open>
  The specification's \<open>buildSeries\<close>: go through the three periods in the order 24h, 7d,
  30d and emit one point, the period's label and score, for each period that has a
  record.
\<close>

definition buildSeries_spec :: "(period \<Rightarrow> SentimentData option) \<Rightarrow> (string \<times> int) list" where
  "buildSeries_spec records =
     concat (map (\<lambda>p. case records p of None \<Rightarrow> [] | Some r \<Rightarrow> [(period_str p, score r)])
                 [P24h, P7d, P30d])"

section \<open>Properties\<close>

subsection \<open>Auxiliary facts\<close>

lemma fetch_try_ok_result:
  "fetch_try (ok_result t) = (if has_sentiment t then Live t else InvalidFormat)"
  by (simp add: fetch_try_def ok_result_def app_error_def)

lemma fetch_try_transport_failure:
  "fetch_try (transport_failure m) = Thrown (js_or m ''Failed to fetch market data'')"
  by (simp add: fetch_try_def transport_failure_def)

lemma fetch_try_app_failure:
  "e \<noteq> [] \<Longrightarrow> fetch_try (app_failure e t) = Thrown e"
  by (simp add: fetch_try_def app_failure_def app_error_def)

lemma fetch_try_null_result: "fetch_try null_result = Thrown null_data_message"
  by (simp add: fetch_try_def null_result_def)

lemmas result_shapes =
  fetch_try_ok_result fetch_try_transport_failure fetch_try_app_failure fetch_try_null_result

lemma thrown_nonempty: "fetch_try r = Thrown m \<Longrightarrow> m \<noteq> []"
  by (auto simp: fetch_try_def js_or_def app_error_def null_data_message_def
           split: option.splits if_splits)

lemma sentimentData_fetch_settle:
  "sentimentData (fetch_settle p r w) =
     (case fetch_try r of Live t \<Rightarrow> t | InvalidFormat \<Rightarrow> mockTable p | Thrown m \<Rightarrow> mockTable p)"
  by (simp add: fetch_settle_def split: outcome.split)

lemma error_fetch_settle:
  "error (fetch_settle p r w) =
     (case fetch_try r of
        Live t \<Rightarrow> error w
      | InvalidFormat \<Rightarrow> error w
      | Thrown m \<Rightarrow> Some (js_or m ''Failed to fetch market sentiment''))"
  by (simp add: fetch_settle_def split: outcome.split)

lemma isLoading_fetch_settle: "isLoading (fetch_settle p r w) = False"
  by (simp add: fetch_settle_def split: outcome.split)

lemma timeframe_fetch_settle: "timeframe (fetch_settle p r w) = timeframe w"
  by (simp add: fetch_settle_def split: outcome.split)

lemma toasts_fetch_settle:
  "toasts (fetch_settle p r w) =
     (case fetch_try r of
        Live t \<Rightarrow> toasts w
      | InvalidFormat \<Rightarrow>
          toasts w @ [ToastWarning ''Using simulated market data. Connect APIs for live data.'']
      | Thrown m \<Rightarrow>
          toasts w @ [ToastError (''Error loading market data: '' @ js_or m ''Unknown error'')])"
  by (simp add: fetch_settle_def split: outcome.split)

lemma error_fetch_begin: "error (fetch_begin w) = None"
  by (simp add: fetch_begin_def)

lemma sentimentData_fetch_begin: "sentimentData (fetch_begin w) = sentimentData w"
  by (simp add: fetch_begin_def)

lemma timeframe_fetch_begin: "timeframe (fetch_begin w) = timeframe w"
  by (simp add: fetch_begin_def)

lemmas fetch_fields =
  sentimentData_fetch_settle error_fetch_settle isLoading_fetch_settle timeframe_fetch_settle
  error_fetch_begin sentimentData_fetch_begin timeframe_fetch_begin

lemma periodEntry_mockTable: "periodEntry (mockTable p) q = Some (mockSentimentData q)"
  by (cases q) (simp_all add: mockTable_def)

lemma run_snoc: "run s (evs @ [e]) = step (run s evs) e"
  by (simp add: run_def)

lemma mounted_simps:
  "timeframe (ui mounted) = P24h" "pending mounted = [P24h]" "error (ui mounted) = None"
  "sentimentData (ui mounted) = emptyTable" "isLoading (ui mounted) = True"
  "toasts (ui mounted) = []"
  by (simp_all add: mounted_def fetch_begin_def)

subsection \<open>Other periods across a fetch\<close>

text \<open>
  C1 (as amended): a fetch for \<open>p\<close> replaces the whole table. The record under any
  period \<open>q\<close> afterwards is the one the live payload carries under \<open>q\<close> (none if it
  carries none), and the static fallback record of \<open>q\<close> on either fallback path; what
  was stored under \<open>q\<close> before plays no part.
\<close>

theorem other_period_entry_after_fetch:
  "periodEntry (sentimentData (fetch_settle p r w)) q =
     (case fetch_try r of
        Live t \<Rightarrow> periodEntry t q
      | InvalidFormat \<Rightarrow> Some (mockSentimentData q)
      | Thrown m \<Rightarrow> Some (mockSentimentData q))
   \<and> sentimentData (fetchSentimentData p r w) = sentimentData (fetch_settle p r w)"
  by (simp add: fetchSentimentData_def sentimentData_fetch_settle sentimentData_fetch_begin
        periodEntry_mockTable split: outcome.split)

text \<open>
  C1 as stated fails: after a live fetch for 24h has stored a record under 24h, a live
  fetch for 7d whose payload carries only \<open>sentiment7d\<close> leaves nothing under 24h.
\<close>

theorem live_fetch_drops_other_period:
  "periodEntry (sentimentData (fetchSentimentData P24h (ok_result (emptyTable\<lparr>sentiment24h := Some (mockSentimentData P24h)\<rparr>)) (ui mounted))) P24h
     = Some (mockSentimentData P24h)
   \<and> periodEntry (sentimentData (fetchSentimentData P7d (ok_result (emptyTable\<lparr>sentiment7d := Some (mockSentimentData P7d)\<rparr>))
         (fetchSentimentData P24h (ok_result (emptyTable\<lparr>sentiment24h := Some (mockSentimentData P24h)\<rparr>)) (ui mounted)))) P24h
     = None"
  by (simp add: fetchSentimentData_def fetch_fields result_shapes has_sentiment_def emptyTable_def)

subsection \<open>Responses that arrive late\<close>

text \<open>
  C2 (as amended): the component applies every response when it arrives. Whatever
  happened before, and whatever was requested since, the table after the arrival of the
  result \<open>r\<close> of a pending call for period \<open>p\<close> is the live payload of \<open>r\<close>, or the mock
  table of \<open>p\<close>; the loading flag is cleared and the selected timeframe is not consulted.
\<close>

theorem response_written_on_arrival:
  "i < length (pending (run s evs)) \<Longrightarrow>
     sentimentData (ui (run s (evs @ [Resolve i r]))) =
       (case fetch_try r of
          Live t \<Rightarrow> t
        | InvalidFormat \<Rightarrow> mockTable (pending (run s evs) ! i)
        | Thrown m \<Rightarrow> mockTable (pending (run s evs) ! i))
     \<and> isLoading (ui (run s (evs @ [Resolve i r]))) = False
     \<and> timeframe (ui (run s (evs @ [Resolve i r]))) = timeframe (ui (run s evs))"
  by (simp add: run_snoc fetch_fields)

text \<open>
  An instance: with 7d selected and the calls for 24h and 7d both pending, the failure
  of the call for 24h installs the mock table of 24h.
\<close>

theorem response_written_on_arrival_witness:
  "0 < length (pending (run mounted [SetTimeframe P7d]))
   \<and> timeframe (ui (run mounted [SetTimeframe P7d])) = P7d
   \<and> pending (run mounted [SetTimeframe P7d]) ! 0 = P24h
   \<and> sentimentData (ui (run mounted ([SetTimeframe P7d] @ [Resolve 0 (transport_failure ''network timeout'')])))
       = mockTable P24h"
  using response_written_on_arrival [of 0 mounted "[SetTimeframe P7d]" "transport_failure ''network timeout''"]
  by (simp add: run_def mounted_simps fetch_fields result_shapes)

text \<open>
  C2 as stated fails. After mounting (a call for 24h pending) and a switch to 7d (a
  second call pending), the result of the older call for 24h is written although 7d is
  selected; and when the newer call resolves first, the older one overwrites it. The
  same happens within one period: after mounting and a refresh, two calls for 24h are
  pending, and the result of the first overwrites the result of the second.
\<close>

theorem stale_response_overwrites:
  "timeframe (ui (run mounted [SetTimeframe P7d])) = P7d
   \<and> pending (run mounted [SetTimeframe P7d]) = [P24h, P7d]
   \<and> sentimentData (ui (run mounted [SetTimeframe P7d])) = emptyTable
   \<and> sentimentData (ui (run mounted [SetTimeframe P7d, Resolve 0 (ok_result (emptyTable\<lparr>sentiment := Some (mockSentimentData P24h)\<rparr>))]))
       = emptyTable\<lparr>sentiment := Some (mockSentimentData P24h)\<rparr>
   \<and> sentimentData (ui (run mounted
        [SetTimeframe P7d,
         Resolve 1 (ok_result (emptyTable\<lparr>sentiment := Some (mockSentimentData P7d)\<rparr>)),
         Resolve 0 (ok_result (emptyTable\<lparr>sentiment := Some (mockSentimentData P24h)\<rparr>))]))
       = emptyTable\<lparr>sentiment := Some (mockSentimentData P24h)\<rparr>
   \<and> pending (run mounted [Refresh]) = [P24h, P24h]
   \<and> sentimentData (ui (run mounted
        [Refresh,
         Resolve 1 (ok_result
           (emptyTable\<lparr>sentiment24h := Some ((mockSentimentData P24h)\<lparr>score := 90\<rparr>)\<rparr>)),
         Resolve 0 (ok_result (emptyTable\<lparr>sentiment24h := Some (mockSentimentData P24h)\<rparr>))]))
       = emptyTable\<lparr>sentiment24h := Some (mockSentimentData P24h)\<rparr>"
  by (simp add: run_def mounted_simps fetch_fields result_shapes has_sentiment_def emptyTable_def
        fetch_begin_def)

subsection \<open>What a fallback installs\<close>

text \<open>
  C3 (as amended): on either fallback path the fetch for \<open>p\<close> installs the whole mock
  table: the static fallback record of \<open>p\<close> under \<open>sentiment\<close>, and under every period
  \<open>q\<close> the static fallback record of \<open>q\<close>, whether or not \<open>q\<close> held a record before.
\<close>

theorem fallback_installs_mock_table:
  "fallback (fetch_try r) \<Longrightarrow>
     sentimentData (fetch_settle p r w) = mockTable p
     \<and> sentiment (sentimentData (fetch_settle p r w)) = Some (mockSentimentData p)
     \<and> periodEntry (sentimentData (fetch_settle p r w)) q = Some (mockSentimentData q)"
proof -
  assume "fallback (fetch_try r)"
  then have tbl: "sentimentData (fetch_settle p r w) = mockTable p"
    by (cases "fetch_try r") (simp_all add: sentimentData_fetch_settle)
  have "sentiment (mockTable p) = Some (mockSentimentData p)"
    by (simp add: mockTable_def)
  with tbl show ?thesis
    by (simp add: periodEntry_mockTable)
qed

text \<open>An instance: the payload \<^verbatim>\<open>{}\<close> for 30d on the freshly mounted component.\<close>

theorem fallback_installs_mock_table_witness:
  "fallback (fetch_try (ok_result emptyTable))
   \<and> sentimentData (fetch_settle P30d (ok_result emptyTable) (ui mounted)) = mockTable P30d
   \<and> periodEntry (sentimentData (fetch_settle P30d (ok_result emptyTable) (ui mounted))) P24h
       = Some (mockSentimentData P24h)"
proof -
  have fb: "fallback (fetch_try (ok_result emptyTable))"
    by (simp add: result_shapes has_sentiment_def emptyTable_def)
  from fallback_installs_mock_table [OF fb, of P30d "ui mounted" P24h] fb
  show ?thesis by blast
qed

text \<open>
  C3 as stated fails: a live record under 7d (score 90) is replaced by the static
  fallback record of 7d when a later fetch for 24h fails.
\<close>

theorem fallback_overwrites_live_entry:
  "periodEntry (sentimentData (fetchSentimentData P7d
       (ok_result (emptyTable\<lparr>sentiment7d := Some ((mockSentimentData P7d)\<lparr>score := 90\<rparr>)\<rparr>)) (ui mounted))) P7d
     = Some ((mockSentimentData P7d)\<lparr>score := 90\<rparr>)
   \<and> periodEntry (sentimentData (fetchSentimentData P24h (transport_failure ''network timeout'')
        (fetchSentimentData P7d
           (ok_result (emptyTable\<lparr>sentiment7d := Some ((mockSentimentData P7d)\<lparr>score := 90\<rparr>)\<rparr>)) (ui mounted)))) P7d
     = Some (mockSentimentData P7d)
   \<and> (mockSentimentData P7d)\<lparr>score := 90\<rparr> \<noteq> mockSentimentData P7d"
  by (simp add: fetchSentimentData_def fetch_fields result_shapes has_sentiment_def emptyTable_def
        mockTable_def)

subsection \<open>The error cell\<close>

text \<open>
  C4 (as amended): every fallback that goes through \<open>catch\<close> sets \<open>error\<close> to the
  message of the exception, which is never empty: the transport error's message
  (\<open>Failed to fetch market data\<close> when it has none), the payload's truthy \<open>error\<close>
  field, or the engine's message when the payload is \<open>null\<close> and reading its \<open>error\<close>
  field raises. The one other fallback, taken exactly when there is no transport error
  and the payload is an object with no truthy \<open>error\<close> field and no sentiment object,
  does not touch \<open>error\<close>: it keeps the value it had, which is unset when nothing ran
  between the start of the fetch and its result.
\<close>

theorem error_after_fallback:
  "(fetch_try r = Thrown m \<longrightarrow>
      m \<noteq> [] \<and> error (fetch_settle p r w) = Some m \<and> error (fetchSentimentData p r w) = Some m)
   \<and> (fetch_try r = InvalidFormat \<longrightarrow>
      error (fetch_settle p r w) = error w \<and> error (fetchSentimentData p r w) = None)
   \<and> (fn_error r = Some m' \<longrightarrow> fetch_try r = Thrown (js_or m' ''Failed to fetch market data''))
   \<and> (fn_error r = None \<and> data r = None \<longrightarrow> fetch_try r = Thrown null_data_message)
   \<and> (fn_error r = None \<and> data r = Some d \<and> app_error d = Some e \<longrightarrow> fetch_try r = Thrown e)
   \<and> (fetch_try r = InvalidFormat \<longleftrightarrow>
        fn_error r = None
        \<and> (case data r of None \<Rightarrow> False
            | Some d' \<Rightarrow> app_error d' = None \<and> \<not> has_sentiment (body d')))"
proof -
  have thrown: "fetch_try r = Thrown m \<longrightarrow>
      m \<noteq> [] \<and> error (fetch_settle p r w) = Some m \<and> error (fetchSentimentData p r w) = Some m"
    using thrown_nonempty [of r m]
    by (simp add: fetchSentimentData_def fetch_fields js_or_def)
  have invalid: "fetch_try r = InvalidFormat \<longrightarrow>
      error (fetch_settle p r w) = error w \<and> error (fetchSentimentData p r w) = None"
    by (simp add: fetchSentimentData_def fetch_fields)
  have transport: "fn_error r = Some m' \<longrightarrow>
      fetch_try r = Thrown (js_or m' ''Failed to fetch market data'')"
    by (simp add: fetch_try_def)
  have null: "fn_error r = None \<and> data r = None \<longrightarrow> fetch_try r = Thrown null_data_message"
    by (simp add: fetch_try_def)
  have app: "fn_error r = None \<and> data r = Some d \<and> app_error d = Some e \<longrightarrow> fetch_try r = Thrown e"
    by (simp add: fetch_try_def)
  have only: "fetch_try r = InvalidFormat \<longleftrightarrow>
        fn_error r = None
        \<and> (case data r of None \<Rightarrow> False
            | Some d' \<Rightarrow> app_error d' = None \<and> \<not> has_sentiment (body d'))"
    by (auto simp: fetch_try_def split: option.splits if_splits)
  from thrown invalid transport null app only show ?thesis by blast
qed

text \<open>
  Instances: a transport error \<open>network timeout\<close>, the payload \<open>null\<close>, a payload with
  the error field \<open>quota exceeded\<close>, and the payload \<^verbatim>\<open>{}\<close>.
\<close>

theorem error_after_fallback_witness:
  "fn_error (transport_failure ''network timeout'') = Some ''network timeout''
   \<and> fetch_try (transport_failure ''network timeout'') = Thrown ''network timeout''
   \<and> error (fetchSentimentData P7d (transport_failure ''network timeout'') (ui mounted))
       = Some ''network timeout''
   \<and> fn_error null_result = None \<and> data null_result = None
   \<and> fetch_try null_result = Thrown null_data_message
   \<and> error (fetchSentimentData P7d null_result (ui mounted)) = Some null_data_message
   \<and> fn_error (app_failure ''quota exceeded'' emptyTable) = None
   \<and> data (app_failure ''quota exceeded'' emptyTable)
       = Some \<lparr>data_error = Some ''quota exceeded'', body = emptyTable\<rparr>
   \<and> app_error \<lparr>data_error = Some ''quota exceeded'', body = emptyTable\<rparr> = Some ''quota exceeded''
   \<and> error (fetchSentimentData P7d (app_failure ''quota exceeded'' emptyTable) (ui mounted))
       = Some ''quota exceeded''
   \<and> fetch_try (ok_result emptyTable) = InvalidFormat
   \<and> error (fetchSentimentData P7d (ok_result emptyTable) (ui mounted)) = None"
proof -
  have transport: "fn_error (transport_failure ''network timeout'') = Some ''network timeout''"
    by (simp add: transport_failure_def)
  have null: "fn_error null_result = None \<and> data null_result = None"
    by (simp add: null_result_def)
  have app: "fn_error (app_failure ''quota exceeded'' emptyTable) = None
      \<and> data (app_failure ''quota exceeded'' emptyTable)
          = Some \<lparr>data_error = Some ''quota exceeded'', body = emptyTable\<rparr>
      \<and> app_error \<lparr>data_error = Some ''quota exceeded'', body = emptyTable\<rparr>
          = Some ''quota exceeded''"
    by (simp add: app_failure_def app_error_def)
  have empty: "fn_error (ok_result emptyTable) = None
      \<and> (case data (ok_result emptyTable) of None \<Rightarrow> False
          | Some d' \<Rightarrow> app_error d' = None \<and> \<not> has_sentiment (body d'))"
    by (simp add: ok_result_def app_error_def has_sentiment_def emptyTable_def)
  have default: "js_or ''network timeout'' ''Failed to fetch market data'' = ''network timeout''"
    by (simp add: js_or_def)
  from transport default
    error_after_fallback [of "transport_failure ''network timeout''" "''network timeout''" P7d
      "ui mounted" "''network timeout''"]
  have a: "fetch_try (transport_failure ''network timeout'') = Thrown ''network timeout''
      \<and> error (fetchSentimentData P7d (transport_failure ''network timeout'') (ui mounted))
          = Some ''network timeout''"
    by simp
  from null error_after_fallback [of null_result null_data_message P7d "ui mounted"]
  have b: "fetch_try null_result = Thrown null_data_message
      \<and> error (fetchSentimentData P7d null_result (ui mounted)) = Some null_data_message"
    by blast
  from app
    error_after_fallback [of "app_failure ''quota exceeded'' emptyTable" "''quota exceeded''" P7d
      "ui mounted" _ "\<lparr>data_error = Some ''quota exceeded'', body = emptyTable\<rparr>"
      "''quota exceeded''"]
  have c: "error (fetchSentimentData P7d (app_failure ''quota exceeded'' emptyTable) (ui mounted))
      = Some ''quota exceeded''"
    by blast
  from empty error_after_fallback [of "ok_result emptyTable" _ P7d "ui mounted"]
  have d: "fetch_try (ok_result emptyTable) = InvalidFormat
      \<and> error (fetchSentimentData P7d (ok_result emptyTable) (ui mounted)) = None"
    by blast
  from transport null app a b c d show ?thesis by blast
qed

text \<open>
  C4 as stated fails: the payload \<^verbatim>\<open>{}\<close> for 30d is a fallback (the mock table is
  installed) and \<open>error\<close> is unset afterwards.
\<close>

theorem invalid_format_leaves_error_unset:
  "fetch_try (ok_result emptyTable) = InvalidFormat
   \<and> sentimentData (fetchSentimentData P30d (ok_result emptyTable) (ui mounted)) = mockTable P30d
   \<and> error (fetchSentimentData P30d (ok_result emptyTable) (ui mounted)) = None"
  by (simp add: fetchSentimentData_def fetch_fields result_shapes has_sentiment_def emptyTable_def)

text \<open>
  C9 (as amended): a fetch that starts, and whose live result arrives with nothing
  else in between, stores the payload as the table and ends with \<open>error\<close> unset and the
  loading flag cleared, whatever \<open>error\<close> was before the fetch started. The clearing is
  done at the start of the fetch: the arrival of a live result leaves \<open>error\<close> as it
  finds it.
\<close>

theorem live_fetch_clears_error:
  "fetch_try r = Live t \<Longrightarrow>
     sentimentData (fetchSentimentData p r w) = t
     \<and> error (fetchSentimentData p r w) = None
     \<and> isLoading (fetchSentimentData p r w) = False
     \<and> error (fetch_settle p r w) = error w"
  by (simp add: fetchSentimentData_def fetch_fields)

text \<open>
  An instance: a fetch for 24h failed with \<open>network timeout\<close>; the next fetch, for 7d,
  is live.
\<close>

theorem live_fetch_clears_error_witness:
  "fetch_try (ok_result (emptyTable\<lparr>sentiment7d := Some (mockSentimentData P7d)\<rparr>)) = Live (emptyTable\<lparr>sentiment7d := Some (mockSentimentData P7d)\<rparr>)
   \<and> error (fetchSentimentData P24h (transport_failure ''network timeout'') (ui mounted)) = Some ''network timeout''
   \<and> error (fetchSentimentData P7d (ok_result (emptyTable\<lparr>sentiment7d := Some (mockSentimentData P7d)\<rparr>))
        (fetchSentimentData P24h (transport_failure ''network timeout'') (ui mounted))) = None
   \<and> periodEntry (sentimentData (fetchSentimentData P7d (ok_result (emptyTable\<lparr>sentiment7d := Some (mockSentimentData P7d)\<rparr>))
        (fetchSentimentData P24h (transport_failure ''network timeout'') (ui mounted)))) P7d
       = Some (mockSentimentData P7d)"
  using live_fetch_clears_error [of "ok_result (emptyTable\<lparr>sentiment7d := Some (mockSentimentData P7d)\<rparr>)" "emptyTable\<lparr>sentiment7d := Some (mockSentimentData P7d)\<rparr>" P7d
      "fetchSentimentData P24h (transport_failure ''network timeout'') (ui mounted)"]
  by (simp add: fetchSentimentData_def fetch_fields result_shapes has_sentiment_def emptyTable_def
        js_or_def)

text \<open>
  C9 as stated fails. With the calls for 24h and 7d both pending, the call for 24h
  fails and sets \<open>error\<close>; the live result for 7d then arrives and \<open>error\<close> is still set.
\<close>

theorem live_result_keeps_error:
  "pending (run mounted [SetTimeframe P7d, Resolve 0 (transport_failure ''network timeout'')]) = [P7d]
   \<and> error (ui (run mounted [SetTimeframe P7d, Resolve 0 (transport_failure ''network timeout'')])) = Some ''network timeout''
   \<and> fetch_try (ok_result (emptyTable\<lparr>sentiment7d := Some (mockSentimentData P7d)\<rparr>)) = Live (emptyTable\<lparr>sentiment7d := Some (mockSentimentData P7d)\<rparr>)
   \<and> error (ui (run mounted
        [SetTimeframe P7d, Resolve 0 (transport_failure ''network timeout''), Resolve 0 (ok_result (emptyTable\<lparr>sentiment7d := Some (mockSentimentData P7d)\<rparr>))]))
       = Some ''network timeout''"
  by (simp add: run_def mounted_simps fetch_fields result_shapes has_sentiment_def emptyTable_def
        js_or_def)

subsection \<open>Classifying a result\<close>

text \<open>
  C5: a result is live exactly when it carries at least one of the four sentiment
  objects, a result that carries none is the fallback for an unrecognised format, and
  transport errors and \<open>error\<close> fields take the error path. The code departs from this
  at the payload \<open>null\<close> with no transport error: it carries no sentiment object and no
  error, yet reading its \<open>error\<close> field at line 87 raises before the test of line 95,
  which guards against a falsy \<open>data\<close>, is reached. The fetch ends in \<open>catch\<close>: \<open>error\<close>
  is set and an error notification is sent, where the empty object \<^verbatim>\<open>{}\<close> takes the
  \<open>else\<close> branch and sends the warning.
\<close>

theorem null_payload_takes_catch_path:
  "fn_error null_result = None
   \<and> data null_result = None
   \<and> fetch_try null_result = Thrown null_data_message
   \<and> fetch_try null_result \<noteq> InvalidFormat
   \<and> error (fetchSentimentData P30d null_result (ui mounted)) = Some null_data_message
   \<and> toasts (fetchSentimentData P30d null_result (ui mounted))
       = [ToastError (''Error loading market data: '' @ null_data_message)]
   \<and> fetch_try (ok_result emptyTable) = InvalidFormat
   \<and> error (fetchSentimentData P30d (ok_result emptyTable) (ui mounted)) = None
   \<and> toasts (fetchSentimentData P30d (ok_result emptyTable) (ui mounted))
       = [ToastWarning ''Using simulated market data. Connect APIs for live data.'']"
proof -
  have shape: "fn_error null_result = None \<and> data null_result = None"
    by (simp add: null_result_def)
  have null: "fetch_try null_result = Thrown null_data_message"
    by (rule fetch_try_null_result)
  have msg: "js_or null_data_message d = null_data_message" for d
    by (simp add: js_or_def null_data_message_def)
  have empty: "fetch_try (ok_result emptyTable) = InvalidFormat"
    by (simp add: fetch_try_ok_result has_sentiment_def emptyTable_def)
  have toasts_begin: "toasts (fetch_begin (ui mounted)) = []"
    by (simp add: fetch_begin_def mounted_simps)
  from shape null msg empty toasts_begin show ?thesis
    by (simp add: fetchSentimentData_def fetch_fields toasts_fetch_settle)
qed

subsection \<open>What is checked before a payload is accepted\<close>

text \<open>
  C6 (as amended): the only check before a payload is accepted is the presence of a
  sentiment object. Any record \<open>x\<close> that a payload without error carries, under
  \<open>sentiment\<close> or under a period, is accepted as live and stored as it is, whatever its
  token counts; \<open>error\<close> is unset afterwards.
\<close>

theorem live_record_stored_unvalidated:
  "fn_error r = None \<Longrightarrow> data r = Some d \<Longrightarrow> app_error d = None \<Longrightarrow>
   sentiment (body d) = Some x \<or> periodEntry (body d) q = Some x \<Longrightarrow>
     fetch_try r = Live (body d)
     \<and> sentimentData (fetchSentimentData p r w) = body d
     \<and> error (fetchSentimentData p r w) = None"
proof -
  assume r: "fn_error r = None" "data r = Some d" "app_error d = None"
    and x: "sentiment (body d) = Some x \<or> periodEntry (body d) q = Some x"
  from x have "has_sentiment (body d)"
    by (cases q) (auto simp: has_sentiment_def)
  with r have live: "fetch_try r = Live (body d)"
    by (simp add: fetch_try_def)
  then show ?thesis
    by (simp add: fetchSentimentData_def fetch_fields)
qed

text \<open>
  An instance: a record for 7d with 500 tokens over 1M out of 124 launched is stored
  under 7d.
\<close>

theorem live_record_stored_unvalidated_witness:
  "fn_error (ok_result (emptyTable\<lparr>sentiment7d := Some ((mockSentimentData P7d)\<lparr>tokens_over_1m := 500\<rparr>)\<rparr>)) = None
   \<and> tokens_launched ((mockSentimentData P7d)\<lparr>tokens_over_1m := 500\<rparr>) < tokens_over_1m ((mockSentimentData P7d)\<lparr>tokens_over_1m := 500\<rparr>)
   \<and> periodEntry (sentimentData (fetchSentimentData P7d
        (ok_result (emptyTable\<lparr>sentiment7d := Some ((mockSentimentData P7d)\<lparr>tokens_over_1m := 500\<rparr>)\<rparr>)) (ui mounted))) P7d
       = Some ((mockSentimentData P7d)\<lparr>tokens_over_1m := 500\<rparr>)
   \<and> error (fetchSentimentData P7d
        (ok_result (emptyTable\<lparr>sentiment7d := Some ((mockSentimentData P7d)\<lparr>tokens_over_1m := 500\<rparr>)\<rparr>)) (ui mounted)) = None"
  using live_record_stored_unvalidated
    [of "ok_result (emptyTable\<lparr>sentiment7d := Some ((mockSentimentData P7d)\<lparr>tokens_over_1m := 500\<rparr>)\<rparr>)"
      "\<lparr>data_error = None, body = emptyTable\<lparr>sentiment7d := Some ((mockSentimentData P7d)\<lparr>tokens_over_1m := 500\<rparr>)\<rparr>\<rparr>"
      "(mockSentimentData P7d)\<lparr>tokens_over_1m := 500\<rparr>" P7d P7d "ui mounted"]
  by (simp add: ok_result_def app_error_def emptyTable_def)

text \<open>
  C6 as stated fails: a record with 50 tokens over 1M and 18 over 100K is accepted as
  live, no error is recorded, and it is the current record.
\<close>

theorem unordered_counts_accepted:
  "tokens_over_100k ((mockSentimentData P24h)\<lparr>tokens_over_1m := 50\<rparr>) < tokens_over_1m ((mockSentimentData P24h)\<lparr>tokens_over_1m := 50\<rparr>)
   \<and> fetch_try (ok_result (emptyTable\<lparr>sentiment := Some ((mockSentimentData P24h)\<lparr>tokens_over_1m := 50\<rparr>)\<rparr>))
       = Live (emptyTable\<lparr>sentiment := Some ((mockSentimentData P24h)\<lparr>tokens_over_1m := 50\<rparr>)\<rparr>)
   \<and> error (fetchSentimentData P24h
        (ok_result (emptyTable\<lparr>sentiment := Some ((mockSentimentData P24h)\<lparr>tokens_over_1m := 50\<rparr>)\<rparr>)) (ui mounted)) = None
   \<and> currentSentiment (fetchSentimentData P24h
        (ok_result (emptyTable\<lparr>sentiment := Some ((mockSentimentData P24h)\<lparr>tokens_over_1m := 50\<rparr>)\<rparr>)) (ui mounted))
       = Some ((mockSentimentData P24h)\<lparr>tokens_over_1m := 50\<rparr>)"
  by (simp add: fetchSentimentData_def fetch_fields result_shapes has_sentiment_def emptyTable_def
        currentSentiment_def)

subsection \<open>The chart series\<close>

text \<open>
  C7: \<open>getChartData\<close> is the specification's \<open>buildSeries\<close> on the per-period entries of
  the table: one point, label and score, for each period that has a record, in the
  order 24h, 7d, 30d, periods without a record skipped, at most three points.
\<close>

theorem getChartData_canonical:
  "getChartData t = buildSeries_spec (periodEntry t)
   \<and> map fst (getChartData t) =
       map period_str (filter (\<lambda>p. periodEntry t p \<noteq> None) [P24h, P7d, P30d])
   \<and> length (getChartData t) \<le> 3"
  by (simp add: getChartData_def buildSeries_spec_def split: option.split)

subsection \<open>The current record\<close>

text \<open>
  C8: the current record is the record stored under the selected timeframe, never the
  record of another period. The code departs from this whenever the table's \<open>sentiment\<close>
  object belongs to another period than the selected one, since line 172 returns that
  object first. After the first fetch (for 24h) has failed and 7d has been selected, the
  table holds the fallback record of 7d under 7d, and \<open>currentSentiment\<close> is the fallback
  record of 24h. The same state is reached with nothing loading when the call for 7d
  resolves before the failing call for 24h.
\<close>

theorem currentSentiment_other_period:
  "timeframe (ui (run mounted [Resolve 0 (transport_failure ''network timeout''), SetTimeframe P7d])) = P7d
   \<and> periodEntry (sentimentData (ui (run mounted [Resolve 0 (transport_failure ''network timeout''), SetTimeframe P7d]))) P7d
       = Some (mockSentimentData P7d)
   \<and> currentSentiment (ui (run mounted [Resolve 0 (transport_failure ''network timeout''), SetTimeframe P7d]))
       = Some (mockSentimentData P24h)
   \<and> period (mockSentimentData P24h) = ''24h''
   \<and> mockSentimentData P24h \<noteq> mockSentimentData P7d
   \<and> timeframe (ui (run mounted
        [SetTimeframe P7d, Resolve 1 (ok_result (emptyTable\<lparr>sentiment7d := Some (mockSentimentData P7d)\<rparr>)), Resolve 0 (transport_failure ''network timeout'')])) = P7d
   \<and> isLoading (ui (run mounted
        [SetTimeframe P7d, Resolve 1 (ok_result (emptyTable\<lparr>sentiment7d := Some (mockSentimentData P7d)\<rparr>)), Resolve 0 (transport_failure ''network timeout'')])) = False
   \<and> pending (run mounted
        [SetTimeframe P7d, Resolve 1 (ok_result (emptyTable\<lparr>sentiment7d := Some (mockSentimentData P7d)\<rparr>)), Resolve 0 (transport_failure ''network timeout'')]) = []
   \<and> periodEntry (sentimentData (ui (run mounted
        [SetTimeframe P7d, Resolve 1 (ok_result (emptyTable\<lparr>sentiment7d := Some (mockSentimentData P7d)\<rparr>)), Resolve 0 (transport_failure ''network timeout'')]))) P7d
       = Some (mockSentimentData P7d)
   \<and> currentSentiment (ui (run mounted
        [SetTimeframe P7d, Resolve 1 (ok_result (emptyTable\<lparr>sentiment7d := Some (mockSentimentData P7d)\<rparr>)), Resolve 0 (transport_failure ''network timeout'')]))
       = Some (mockSentimentData P24h)"
  by (simp add: run_def mounted_simps fetch_fields result_shapes currentSentiment_def mockTable_def
        has_sentiment_def emptyTable_def)

subsection \<open>The fallback dataset\<close>

text \<open>
  C10: every record of the static fallback dataset has
  \<open>tokens_over_1m \<le> tokens_over_100k \<le> tokens_launched\<close>, a score and a
  profitable-tokens percentage between 0 and 100, and the period label of its key.
\<close>

theorem mockSentimentData_wellformed:
  "tokens_over_1m (mockSentimentData p) \<le> tokens_over_100k (mockSentimentData p)
   \<and> tokens_over_100k (mockSentimentData p) \<le> tokens_launched (mockSentimentData p)
   \<and> 0 \<le> score (mockSentimentData p) \<and> score (mockSentimentData p) \<le> 100
   \<and> 0 \<le> profitable_tokens_percent (mockSentimentData p)
   \<and> profitable_tokens_percent (mockSentimentData p) \<le> 100
   \<and> period (mockSentimentData p) = period_str p"
  by (cases p) simp_all

end
